theory Spec2Isabelle
  imports Main "HOL-Library.Word"
begin

section \<open>Errors\<close>

text \<open>
  The error values the code creates and tests for: the sentinels of
  \<^verbatim>\<open>internal/domain/errors.go\<close>, the sentinels of the ORM, of
  \<^verbatim>\<open>database/sql\<close> and of the driver, a driver error carrying
  its SQLSTATE, a run-time panic, \<^verbatim>\<open>fmt.Errorf\<close> (with the operand of \<^verbatim>\<open>%w\<close>, if any) and the
  \<^verbatim>\<open>AppError\<close> struct of \<^verbatim>\<open>pkg/errors\<close> (its \<^verbatim>\<open>Details\<close> map is never set
  by the code modelled here and is left out).
\<close>

type_synonym ErrorCode = string

datatype err =
    ErrNotFound
  | ErrConflict
  | ErrInvalidInput
  | ErrAlreadyDeleted
  | ErrDuplicatePhoneNumber
  | ErrRecordNotFound
  | ErrDuplicatedKey
  | ErrForeignKeyViolated
  | ErrInvalidTransaction
  | ErrTxDone
  | ErrTxCommitRollback
  | PgError string
  | Panic string
  | Errorf string "err option"
  | AppError ErrorCode string int "err option"

fun Unwrap :: "err \<Rightarrow> err option" where
  "Unwrap (Errorf _ e) = e"
| "Unwrap (AppError _ _ _ e) = e"
| "Unwrap _ = None"

text \<open>\<^verbatim>\<open>errors.Is\<close>: compare, then follow the \<^verbatim>\<open>Unwrap\<close> chain.\<close>

fun errors_Is :: "err \<Rightarrow> err \<Rightarrow> bool" where
  "errors_Is (Errorf m (Some e)) target = (Errorf m (Some e) = target \<or> errors_Is e target)"
| "errors_Is (AppError c m s (Some e)) target =
     (AppError c m s (Some e) = target \<or> errors_Is e target)"
| "errors_Is e target = (e = target)"

definition ErrCodeInternal :: ErrorCode where
  "ErrCodeInternal = ''INTERNAL_ERROR''"

definition ErrCodeInvalidCredentials :: ErrorCode where
  "ErrCodeInvalidCredentials = ''INVALID_CREDENTIALS''"


definition New :: "ErrorCode \<Rightarrow> string \<Rightarrow> int \<Rightarrow> err" where
  "New code message httpStatus = AppError code message httpStatus None"

definition Wrap :: "err \<Rightarrow> ErrorCode \<Rightarrow> string \<Rightarrow> int \<Rightarrow> err" where
  "Wrap e code message httpStatus = AppError code message httpStatus (Some e)"

definition ErrInvalidCredentials :: err where
  "ErrInvalidCredentials = New ErrCodeInvalidCredentials ''Invalid email or password'' 401"


text \<open>
  The domain errors of the store's taxonomy: an error is one of them when
  \<^verbatim>\<open>errors.Is\<close> finds the sentinel in its chain.
\<close>

definition is_domain_error :: "err \<Rightarrow> bool" where
  "is_domain_error e =
     (errors_Is e ErrNotFound \<or> errors_Is e ErrConflict \<or> errors_Is e ErrInvalidInput
      \<or> errors_Is e ErrAlreadyDeleted \<or> errors_Is e ErrDuplicatePhoneNumber)"

section \<open>Entities and table rows\<close>

text \<open>
  \<^verbatim>\<open>uuid.UUID\<close> is 16 bytes, \<^verbatim>\<open>uuid.Nil\<close> all zero. Go's \<^verbatim>\<open>int\<close> is the 64-bit
  two's complement integer of the server platforms, read through \<open>sint\<close>.
  \<^verbatim>\<open>time.Time\<close> is an instant on an integer time line whose origin stands for the zero
  \<^verbatim>\<open>time.Time\<close>. A \<^verbatim>\<open>float64\<close> is only ever copied, so it is kept as its 64 bits.
\<close>

type_synonym uuid_UUID = "128 word"
type_synonym go_int = "64 word"
type_synonym time_Time = int
type_synonym float64 = "64 word"

definition uuid_Nil :: uuid_UUID where
  "uuid_Nil = 0"

record User =
  ID :: uuid_UUID
  FullName :: string
  PhoneNumber :: string
  Image :: "string option"
  Version :: go_int
  CreatedAt :: time_Time
  UpdatedAt :: time_Time
  DeletedAt :: "time_Time option"

record MoneyFlow =
  ID :: uuid_UUID
  UserID :: uuid_UUID
  Category :: "string option"
  Amount :: float64
  Currency :: string
  Description :: "string option"
  Tags :: "string list"
  Version :: go_int
  CreatedAt :: time_Time
  UpdatedAt :: time_Time
  DeletedAt :: "time_Time option"

record UserAuth =
  ID :: uuid_UUID
  UserID :: uuid_UUID
  AuthProviderID :: uuid_UUID
  CredentialID :: string
  CredentialSecret :: string
  CredentialRefresh :: "string option"

record AuthProvider =
  ID :: uuid_UUID
  DisplayName :: string
  Name :: "string option"
  Image :: "string option"
  ClientID :: "string option"
  ClientSecret :: "string option"

text \<open>\<^verbatim>\<open>gorm.DeletedAt\<close> is a nullable time: the column is NULL when \<open>Valid\<close> is false.\<close>

record gorm_DeletedAt =
  Time :: time_Time
  Valid :: bool

text \<open>
  The models of \<^verbatim>\<open>models.go\<close>; a table row is a model value. The association fields
  (\<^verbatim>\<open>User\<close>, \<^verbatim>\<open>AuthProvider\<close>) are never loaded or written by the repositories and are
  left out.
\<close>

record UserModel =
  ID :: uuid_UUID
  FullName :: string
  PhoneNumber :: string
  Image :: "string option"
  Version :: go_int
  CreatedAt :: time_Time
  UpdatedAt :: time_Time
  DeletedAt :: gorm_DeletedAt

record AuthProviderModel =
  ID :: uuid_UUID
  DisplayName :: string
  Name :: "string option"
  Image :: "string option"
  ClientID :: "string option"
  ClientSecret :: "string option"
  Version :: go_int
  CreatedAt :: time_Time
  UpdatedAt :: time_Time
  DeletedAt :: gorm_DeletedAt

record UserAuthModel =
  ID :: uuid_UUID
  UserID :: uuid_UUID
  AuthProviderID :: uuid_UUID
  CredentialID :: string
  CredentialSecret :: string
  CredentialRefresh :: "string option"
  Version :: go_int
  CreatedAt :: time_Time
  UpdatedAt :: time_Time
  DeletedAt :: gorm_DeletedAt

record MoneyFlowModel =
  ID :: uuid_UUID
  UserID :: uuid_UUID
  Category :: "string option"
  Amount :: float64
  Currency :: string
  Description :: "string option"
  Tags :: "string list"
  Version :: go_int
  CreatedAt :: time_Time
  UpdatedAt :: time_Time
  DeletedAt :: gorm_DeletedAt

subsection \<open>The domain constructors and methods\<close>

text \<open>
  \<^verbatim>\<open>uuid.New()\<close> and \<^verbatim>\<open>time.Now()\<close> read the environment; the pure part of each
  function takes the value that was read.
\<close>

definition NewUser :: "uuid_UUID \<Rightarrow> time_Time \<Rightarrow> string \<Rightarrow> string \<Rightarrow> User" where
  "NewUser uid now fullName phoneNumber =
     \<lparr>User.ID = uid, User.FullName = fullName, User.PhoneNumber = phoneNumber,
      User.Image = None, User.Version = 0, User.CreatedAt = now, User.UpdatedAt = now,
      User.DeletedAt = None\<rparr>"

definition IsDeleted :: "User \<Rightarrow> bool" where
  "IsDeleted u = (User.DeletedAt u \<noteq> None)"

definition IncrementVersion :: "time_Time \<Rightarrow> User \<Rightarrow> User" where
  "IncrementVersion now u = u\<lparr>User.Version := User.Version u + 1, User.UpdatedAt := now\<rparr>"

definition SoftDelete :: "time_Time \<Rightarrow> User \<Rightarrow> User" where
  "SoftDelete now u = u\<lparr>User.DeletedAt := Some now, User.UpdatedAt := now\<rparr>"

definition MoneyFlow_IncrementVersion :: "time_Time \<Rightarrow> MoneyFlow \<Rightarrow> MoneyFlow" where
  "MoneyFlow_IncrementVersion now mf =
     mf\<lparr>MoneyFlow.Version := MoneyFlow.Version mf + 1, MoneyFlow.UpdatedAt := now\<rparr>"

section \<open>The database\<close>

text \<open>
  The four tables that the schema migration creates. Rows are kept in
  insertion order.
\<close>

record store =
  users :: "UserModel list"
  auth_providers :: "AuthProviderModel list"
  user_auths :: "UserAuthModel list"
  money_flows :: "MoneyFlowModel list"

text \<open>
  What the ORM and the schema know of a table: where its rows live, its primary key,
  its \<^verbatim>\<open>deleted_at\<close> column, what an INSERT fills in for zero fields (the generated
  id, the creation and update times), how a soft delete marks a row, and which
  constraint of the schema a written row violates, if any, as its SQLSTATE: \<^verbatim>\<open>22003\<close>
  for a value outside the column's range, \<^verbatim>\<open>23505\<close> for a unique index, \<^verbatim>\<open>23503\<close> for
  a foreign key.
\<close>

record 'r table =
  rows_of :: "store \<Rightarrow> 'r list"
  put_rows :: "'r list \<Rightarrow> store \<Rightarrow> store"
  pkey :: "'r \<Rightarrow> uuid_UUID"
  deleted_at :: "'r \<Rightarrow> time_Time option"
  with_defaults :: "uuid_UUID \<Rightarrow> time_Time \<Rightarrow> 'r \<Rightarrow> 'r"
  soft_deleted :: "time_Time \<Rightarrow> 'r \<Rightarrow> 'r"
  violation :: "store \<Rightarrow> 'r \<Rightarrow> string option"

definition null_time :: "gorm_DeletedAt \<Rightarrow> time_Time option" where
  "null_time d = (if Valid d then Some (Time d) else None)"

definition zero_or :: "time_Time \<Rightarrow> time_Time \<Rightarrow> time_Time" where
  "zero_or now t = (if t = 0 then now else t)"

text \<open>The \<^verbatim>\<open>version\<close> columns are PostgreSQL \<^verbatim>\<open>integer\<close>: 32 bits, signed.\<close>

definition in_integer_range :: "go_int \<Rightarrow> bool" where
  "in_integer_range v = (- (2 ^ 31) \<le> sint v \<and> sint v < 2 ^ 31)"

definition users_violation :: "store \<Rightarrow> UserModel \<Rightarrow> string option" where
  "users_violation s r =
     (if \<not> in_integer_range (UserModel.Version r) then Some ''22003''
      else if \<not> Valid (UserModel.DeletedAt r)
              \<and> (\<exists>x \<in> set (users s). UserModel.ID x \<noteq> UserModel.ID r
                    \<and> \<not> Valid (UserModel.DeletedAt x)
                    \<and> UserModel.PhoneNumber x = UserModel.PhoneNumber r)
      then Some ''23505''
      else None)"

definition users_table :: "UserModel table" where
  "users_table =
     \<lparr>rows_of = users,
      put_rows = (\<lambda>rs s. s\<lparr>users := rs\<rparr>),
      pkey = UserModel.ID,
      deleted_at = (\<lambda>r. null_time (UserModel.DeletedAt r)),
      with_defaults = (\<lambda>g now r. r\<lparr>UserModel.ID := g,
                          UserModel.CreatedAt := zero_or now (UserModel.CreatedAt r),
                          UserModel.UpdatedAt := zero_or now (UserModel.UpdatedAt r)\<rparr>),
      soft_deleted = (\<lambda>now r. r\<lparr>UserModel.DeletedAt := \<lparr>Time = now, Valid = True\<rparr>\<rparr>),
      violation = users_violation\<rparr>"

definition auth_providers_violation :: "store \<Rightarrow> AuthProviderModel \<Rightarrow> string option" where
  "auth_providers_violation s r =
     (if \<not> in_integer_range (AuthProviderModel.Version r) then Some ''22003''
      else if \<not> Valid (AuthProviderModel.DeletedAt r) \<and> AuthProviderModel.Name r \<noteq> None
              \<and> (\<exists>x \<in> set (auth_providers s). AuthProviderModel.ID x \<noteq> AuthProviderModel.ID r
                    \<and> \<not> Valid (AuthProviderModel.DeletedAt x)
                    \<and> AuthProviderModel.Name x = AuthProviderModel.Name r)
      then Some ''23505''
      else None)"

definition auth_providers_table :: "AuthProviderModel table" where
  "auth_providers_table =
     \<lparr>rows_of = auth_providers,
      put_rows = (\<lambda>rs s. s\<lparr>auth_providers := rs\<rparr>),
      pkey = AuthProviderModel.ID,
      deleted_at = (\<lambda>r. null_time (AuthProviderModel.DeletedAt r)),
      with_defaults = (\<lambda>g now r. r\<lparr>AuthProviderModel.ID := g,
                          AuthProviderModel.CreatedAt := zero_or now (AuthProviderModel.CreatedAt r),
                          AuthProviderModel.UpdatedAt := zero_or now (AuthProviderModel.UpdatedAt r)\<rparr>),
      soft_deleted = (\<lambda>now r. r\<lparr>AuthProviderModel.DeletedAt := \<lparr>Time = now, Valid = True\<rparr>\<rparr>),
      violation = auth_providers_violation\<rparr>"

definition user_auths_violation :: "store \<Rightarrow> UserAuthModel \<Rightarrow> string option" where
  "user_auths_violation s r =
     (if \<not> in_integer_range (UserAuthModel.Version r) then Some ''22003''
      else if \<not> Valid (UserAuthModel.DeletedAt r)
              \<and> (\<exists>x \<in> set (user_auths s). UserAuthModel.ID x \<noteq> UserAuthModel.ID r
                    \<and> \<not> Valid (UserAuthModel.DeletedAt x)
                    \<and> UserAuthModel.UserID x = UserAuthModel.UserID r
                    \<and> UserAuthModel.AuthProviderID x = UserAuthModel.AuthProviderID r)
      then Some ''23505''
      else if (\<forall>u \<in> set (users s). UserModel.ID u \<noteq> UserAuthModel.UserID r)
              \<or> (\<forall>p \<in> set (auth_providers s).
                    AuthProviderModel.ID p \<noteq> UserAuthModel.AuthProviderID r)
      then Some ''23503''
      else None)"

definition user_auths_table :: "UserAuthModel table" where
  "user_auths_table =
     \<lparr>rows_of = user_auths,
      put_rows = (\<lambda>rs s. s\<lparr>user_auths := rs\<rparr>),
      pkey = UserAuthModel.ID,
      deleted_at = (\<lambda>r. null_time (UserAuthModel.DeletedAt r)),
      with_defaults = (\<lambda>g now r. r\<lparr>UserAuthModel.ID := g,
                          UserAuthModel.CreatedAt := zero_or now (UserAuthModel.CreatedAt r),
                          UserAuthModel.UpdatedAt := zero_or now (UserAuthModel.UpdatedAt r)\<rparr>),
      soft_deleted = (\<lambda>now r. r\<lparr>UserAuthModel.DeletedAt := \<lparr>Time = now, Valid = True\<rparr>\<rparr>),
      violation = user_auths_violation\<rparr>"

definition money_flows_violation :: "store \<Rightarrow> MoneyFlowModel \<Rightarrow> string option" where
  "money_flows_violation s r =
     (if \<not> in_integer_range (MoneyFlowModel.Version r) then Some ''22003''
      else if (\<forall>u \<in> set (users s). UserModel.ID u \<noteq> MoneyFlowModel.UserID r)
      then Some ''23503''
      else None)"

definition money_flows_table :: "MoneyFlowModel table" where
  "money_flows_table =
     \<lparr>rows_of = money_flows,
      put_rows = (\<lambda>rs s. s\<lparr>money_flows := rs\<rparr>),
      pkey = MoneyFlowModel.ID,
      deleted_at = (\<lambda>r. null_time (MoneyFlowModel.DeletedAt r)),
      with_defaults = (\<lambda>g now r. r\<lparr>MoneyFlowModel.ID := g,
                          MoneyFlowModel.CreatedAt := zero_or now (MoneyFlowModel.CreatedAt r),
                          MoneyFlowModel.UpdatedAt := zero_or now (MoneyFlowModel.UpdatedAt r)\<rparr>),
      soft_deleted = (\<lambda>now r. r\<lparr>MoneyFlowModel.DeletedAt := \<lparr>Time = now, Valid = True\<rparr>\<rparr>),
      violation = money_flows_violation\<rparr>"

subsection \<open>Statements\<close>

text \<open>
  The SQL statements the ORM issues for the calls the repositories make, as functions
  on the store. Every model has a \<^verbatim>\<open>gorm.DeletedAt\<close> field, so the ORM adds
  \<^verbatim>\<open>deleted_at IS NULL\<close> to the condition of each SELECT and UPDATE, and turns DELETE
  into an UPDATE that sets \<^verbatim>\<open>deleted_at\<close> on the rows satisfying that same condition.
\<close>

definition visible :: "'r table \<Rightarrow> ('r \<Rightarrow> bool) \<Rightarrow> 'r \<Rightarrow> bool" where
  "visible T P r = (P r \<and> deleted_at T r = None)"

definition first_violation :: "'r table \<Rightarrow> store \<Rightarrow> 'r list \<Rightarrow> string option" where
  "first_violation T s rs =
     (case List.map_filter (violation T s) rs of [] \<Rightarrow> None | c # _ \<Rightarrow> Some c)"

definition insert_row :: "'r table \<Rightarrow> 'r \<Rightarrow> store \<Rightarrow> string + store" where
  "insert_row T r s =
     (if \<exists>x \<in> set (rows_of T s). pkey T x = pkey T r then Inl ''23505''
      else case violation T s r of
             Some c \<Rightarrow> Inl c
           | None \<Rightarrow> Inr (put_rows T (rows_of T s @ [r]) s))"

definition select_first :: "'r table \<Rightarrow> ('r \<Rightarrow> bool) \<Rightarrow> store \<Rightarrow> 'r option" where
  "select_first T P s =
     (case filter (visible T P) (rows_of T s) of
        [] \<Rightarrow> None
      | r # rs \<Rightarrow> Some (fold (\<lambda>x m. if pkey T x < pkey T m then x else m) rs r))"

definition page :: "int option \<Rightarrow> int option \<Rightarrow> 'a list \<Rightarrow> 'a list" where
  "page limit offset xs =
     (let ys = (case offset of
                  None \<Rightarrow> xs
                | Some k \<Rightarrow> if 0 < k then drop (nat k) xs else xs)
      in case limit of
           None \<Rightarrow> ys
         | Some n \<Rightarrow> if 0 \<le> n then take (nat n) ys else ys)"

definition select_all ::
  "'r table \<Rightarrow> ('r \<Rightarrow> bool) \<Rightarrow> ('r \<Rightarrow> int) \<Rightarrow> int option \<Rightarrow> int option \<Rightarrow> store \<Rightarrow> 'r list" where
  "select_all T P order_key limit offset s =
     page limit offset (sort_key order_key (filter (visible T P) (rows_of T s)))"

definition update_rows ::
  "'r table \<Rightarrow> ('r \<Rightarrow> bool) \<Rightarrow> ('r \<Rightarrow> 'r) \<Rightarrow> store \<Rightarrow> string + (nat \<times> store)" where
  "update_rows T P f s =
     (let hit = filter (visible T P) (rows_of T s);
          s' = put_rows T (map (\<lambda>r. if visible T P r then f r else r) (rows_of T s)) s
      in case first_violation T s' (map f hit) of
           Some c \<Rightarrow> Inl c
         | None \<Rightarrow> Inr (length hit, s'))"

definition delete_rows :: "'r table \<Rightarrow> ('r \<Rightarrow> bool) \<Rightarrow> time_Time \<Rightarrow> store \<Rightarrow> nat \<times> store" where
  "delete_rows T P now s =
     (length (filter (visible T P) (rows_of T s)),
      put_rows T (map (\<lambda>r. if visible T P r then soft_deleted T now r else r) (rows_of T s)) s)"

subsection \<open>Connections and transactions\<close>

text \<open>
  The environment of the process: the committed data, the transactions begun so far
  (\<open>None\<close> once a transaction is committed or rolled back), the clock read by
  \<^verbatim>\<open>time.Now\<close> and by the ORM's \<^verbatim>\<open>NowFunc\<close>, the random source behind
  \<^verbatim>\<open>uuid.New\<close> and the column default of \<^verbatim>\<open>id\<close>, and the \<^verbatim>\<open>TranslateError\<close>
  field of the \<^verbatim>\<open>gorm.Config\<close> the connection was opened with.

  A transaction works on the copy of the committed data taken when it began and
  installs that copy on commit; transactions that overlap in time with other writers
  are outside what this sequential model describes. A statement that the database
  rejects inside a transaction aborts the transaction: every later statement on it
  fails with SQLSTATE \<^verbatim>\<open>25P02\<close>, and its COMMIT rolls back and reports that.
\<close>

record tx_state =
  data :: store
  aborted :: bool

record world =
  committed :: store
  txs :: "tx_state option list"
  clock :: time_Time
  entropy :: "nat \<Rightarrow> uuid_UUID"
  drawn :: nat
  TranslateError :: bool

text \<open>A \<^verbatim>\<open>repository.DB\<close> value: the pooled connection or a transaction.\<close>

datatype DB = Conn | Tx nat

record Result =
  Error :: "err option"
  RowsAffected :: int

definition uuid_New :: "world \<Rightarrow> uuid_UUID \<times> world" where
  "uuid_New w = (entropy w (drawn w), w\<lparr>drawn := drawn w + 1\<rparr>)"

definition tx_of :: "nat \<Rightarrow> world \<Rightarrow> tx_state option" where
  "tx_of n w = (if n < length (txs w) then txs w ! n else None)"

text \<open>The data a statement on the handle works on, or the error the handle answers with.\<close>

definition view :: "DB \<Rightarrow> world \<Rightarrow> err + store" where
  "view db w =
     (case db of
        Conn \<Rightarrow> Inr (committed w)
      | Tx n \<Rightarrow>
          (case tx_of n w of
             None \<Rightarrow> Inl ErrTxDone
           | Some t \<Rightarrow> if aborted t then Inl (PgError ''25P02'') else Inr (data t)))"

definition store_back :: "DB \<Rightarrow> store \<Rightarrow> world \<Rightarrow> world" where
  "store_back db s w =
     (case db of
        Conn \<Rightarrow> w\<lparr>committed := s\<rparr>
      | Tx n \<Rightarrow> w\<lparr>txs := (txs w)[n := Some \<lparr>data = s, aborted = False\<rparr>]\<rparr>)"

text \<open>The database rejected a statement on the handle.\<close>

definition rejected :: "DB \<Rightarrow> world \<Rightarrow> world" where
  "rejected db w =
     (case db of
        Conn \<Rightarrow> w
      | Tx n \<Rightarrow> w\<lparr>txs := (txs w)[n := map_option (\<lambda>t. t\<lparr>aborted := True\<rparr>) (tx_of n w)]\<rparr>)"

text \<open>
  Without \<^verbatim>\<open>TranslateError\<close> the ORM hands the driver's error on as it is; with it,
  a unique violation becomes \<^verbatim>\<open>gorm.ErrDuplicatedKey\<close> and a foreign-key violation
  \<^verbatim>\<open>gorm.ErrForeignKeyViolated\<close>.
\<close>

definition translate :: "bool \<Rightarrow> string \<Rightarrow> err" where
  "translate on code =
     (if on \<and> code = ''23505'' then ErrDuplicatedKey
      else if on \<and> code = ''23503'' then ErrForeignKeyViolated
      else PgError code)"

text \<open>
  \<^verbatim>\<open>db.Create(model)\<close>. The model comes back with the values the insert filled in.
\<close>

definition db_Create :: "'r table \<Rightarrow> DB \<Rightarrow> 'r \<Rightarrow> world \<Rightarrow> (Result \<times> 'r) \<times> world" where
  "db_Create T db model w =
     (case view db w of
        Inl e \<Rightarrow> ((\<lparr>Error = Some e, RowsAffected = 0\<rparr>, model), w)
      | Inr s \<Rightarrow>
          let (g, w1) = (if pkey T model = uuid_Nil then uuid_New w else (pkey T model, w));
              r = with_defaults T g (clock w) model
          in case insert_row T r s of
               Inl c \<Rightarrow>
                 ((\<lparr>Error = Some (translate (TranslateError w) c), RowsAffected = 0\<rparr>, model),
                  rejected db w1)
             | Inr s' \<Rightarrow> ((\<lparr>Error = None, RowsAffected = 1\<rparr>, r), store_back db s' w1))"

text \<open>\<^verbatim>\<open>db.Where(P).First(&model)\<close>: the matching row with the least primary key.\<close>

definition db_First :: "'r table \<Rightarrow> DB \<Rightarrow> ('r \<Rightarrow> bool) \<Rightarrow> world \<Rightarrow> err + 'r" where
  "db_First T db P w =
     (case view db w of
        Inl e \<Rightarrow> Inl e
      | Inr s \<Rightarrow>
          (case select_first T P s of
             None \<Rightarrow> Inl ErrRecordNotFound
           | Some r \<Rightarrow> Inr r))"

text \<open>\<^verbatim>\<open>db.Where(P).Limit(l).Offset(k).Order(o).Find(&models)\<close>.\<close>

definition db_Find ::
  "'r table \<Rightarrow> DB \<Rightarrow> ('r \<Rightarrow> bool) \<Rightarrow> ('r \<Rightarrow> int) \<Rightarrow> int option \<Rightarrow> int option \<Rightarrow> world
   \<Rightarrow> err + 'r list" where
  "db_Find T db P order_key limit offset w =
     (case view db w of
        Inl e \<Rightarrow> Inl e
      | Inr s \<Rightarrow> Inr (select_all T P order_key limit offset s))"

text \<open>\<^verbatim>\<open>db.Model(&M{}).Where(P).Updates(map)\<close>, the map being the assignment \<open>f\<close>.\<close>

definition db_Updates ::
  "'r table \<Rightarrow> DB \<Rightarrow> ('r \<Rightarrow> bool) \<Rightarrow> ('r \<Rightarrow> 'r) \<Rightarrow> world \<Rightarrow> Result \<times> world" where
  "db_Updates T db P f w =
     (case view db w of
        Inl e \<Rightarrow> (\<lparr>Error = Some e, RowsAffected = 0\<rparr>, w)
      | Inr s \<Rightarrow>
          (case update_rows T P f s of
             Inl c \<Rightarrow>
               (\<lparr>Error = Some (translate (TranslateError w) c), RowsAffected = 0\<rparr>, rejected db w)
           | Inr (n, s') \<Rightarrow> (\<lparr>Error = None, RowsAffected = int n\<rparr>, store_back db s' w)))"

text \<open>\<^verbatim>\<open>db.Delete(&M{}, P)\<close>.\<close>

definition db_Delete :: "'r table \<Rightarrow> DB \<Rightarrow> ('r \<Rightarrow> bool) \<Rightarrow> world \<Rightarrow> Result \<times> world" where
  "db_Delete T db P w =
     (case view db w of
        Inl e \<Rightarrow> (\<lparr>Error = Some e, RowsAffected = 0\<rparr>, w)
      | Inr s \<Rightarrow>
          (case delete_rows T P (clock w) s of
             (n, s') \<Rightarrow> (\<lparr>Error = None, RowsAffected = int n\<rparr>, store_back db s' w)))"

text \<open>
  \<^verbatim>\<open>Begin\<close> and \<^verbatim>\<open>Transaction\<close> are only ever called on the pooled connection the
  transaction manager was built with; \<^verbatim>\<open>Commit\<close> and \<^verbatim>\<open>Rollback\<close> on whatever
  handle the context holds.
\<close>

definition db_Begin :: "world \<Rightarrow> DB \<times> world" where
  "db_Begin w =
     (Tx (length (txs w)), w\<lparr>txs := txs w @ [Some \<lparr>data = committed w, aborted = False\<rparr>]\<rparr>)"

definition db_Commit :: "DB \<Rightarrow> world \<Rightarrow> err option \<times> world" where
  "db_Commit db w =
     (case db of
        Conn \<Rightarrow> (Some ErrInvalidTransaction, w)
      | Tx n \<Rightarrow>
          (case tx_of n w of
             None \<Rightarrow> (Some ErrTxDone, w)
           | Some t \<Rightarrow>
               if aborted t then (Some ErrTxCommitRollback, w\<lparr>txs := (txs w)[n := None]\<rparr>)
               else (None, w\<lparr>committed := data t, txs := (txs w)[n := None]\<rparr>)))"

definition db_Rollback :: "DB \<Rightarrow> world \<Rightarrow> err option \<times> world" where
  "db_Rollback db w =
     (case db of
        Conn \<Rightarrow> (Some ErrInvalidTransaction, w)
      | Tx n \<Rightarrow>
          (case tx_of n w of
             None \<Rightarrow> (Some ErrTxDone, w)
           | Some t \<Rightarrow> (None, w\<lparr>txs := (txs w)[n := None]\<rparr>)))"

text \<open>
  \<^verbatim>\<open>db.Transaction(fc)\<close>: begin, run \<open>fc\<close> on the transaction, roll back when it
  returns an error (or when the commit fails) and return that error, commit otherwise.
  A Go closure may assign to variables of the function around it (\<^verbatim>\<open>Register\<close>'s
  \<^verbatim>\<open>user\<close>); a callback threads them as \<open>c\<close>, next to the world.
\<close>

definition db_Transaction ::
  "(DB \<Rightarrow> 'c \<Rightarrow> world \<Rightarrow> err option \<times> 'c \<times> world) \<Rightarrow> 'c \<Rightarrow> world \<Rightarrow> err option \<times> 'c \<times> world" where
  "db_Transaction fc c w =
     (case db_Begin w of
        (tx, w1) \<Rightarrow>
          (case fc tx c w1 of
             (Some e, c2, w2) \<Rightarrow> (Some e, c2, snd (db_Rollback tx w2))
           | (None, c2, w2) \<Rightarrow>
               (case db_Commit tx w2 of
                  (None, w3) \<Rightarrow> (None, c2, w3)
                | (Some e, w3) \<Rightarrow> (Some e, c2, snd (db_Rollback tx w3)))))"

section \<open>The transaction manager\<close>

text \<open>
  Of a \<^verbatim>\<open>context.Context\<close> the code reads one thing, the value stored under
  \<^verbatim>\<open>TxKey\<close>: nothing, a \<^verbatim>\<open>repository.DB\<close>, or a value of some other type (the key is
  exported and the setter takes any value).
\<close>

datatype tx_value = IsDB DB | NotDB

type_synonym Context = "tx_value option"

definition GetTransactionFromContext :: "Context \<Rightarrow> tx_value option" where
  "GetTransactionFromContext ctx = ctx"

definition SetTransactionInContext :: "Context \<Rightarrow> tx_value \<Rightarrow> Context" where
  "SetTransactionInContext ctx tx = Some tx"

definition IsInTransaction :: "Context \<Rightarrow> bool" where
  "IsInTransaction ctx = (GetTransactionFromContext ctx \<noteq> None)"

definition GetDB :: "Context \<Rightarrow> DB \<Rightarrow> DB" where
  "GetDB ctx db =
     (case GetTransactionFromContext ctx of
        Some (IsDB dbTx) \<Rightarrow> dbTx
      | _ \<Rightarrow> db)"

definition WithTransaction ::
  "Context \<Rightarrow> (Context \<Rightarrow> 'c \<Rightarrow> world \<Rightarrow> err option \<times> 'c \<times> world) \<Rightarrow> 'c \<Rightarrow> world
   \<Rightarrow> err option \<times> 'c \<times> world" where
  "WithTransaction ctx fn c w =
     (if IsInTransaction ctx then fn ctx c w
      else db_Transaction (\<lambda>tx. fn (SetTransactionInContext ctx (IsDB tx))) c w)"

definition BeginTransaction :: "Context \<Rightarrow> world \<Rightarrow> (err + Context) \<times> world" where
  "BeginTransaction ctx w =
     (if IsInTransaction ctx then (Inr ctx, w)
      else case db_Begin w of
             (tx, w1) \<Rightarrow> (Inr (SetTransactionInContext ctx (IsDB tx)), w1))"

definition CommitTransaction :: "Context \<Rightarrow> world \<Rightarrow> err option \<times> world" where
  "CommitTransaction ctx w =
     (case GetTransactionFromContext ctx of
        None \<Rightarrow> (Some (Errorf ''no active transaction to commit'' None), w)
      | Some NotDB \<Rightarrow> (Some (Errorf ''invalid transaction type in context'' None), w)
      | Some (IsDB dbTx) \<Rightarrow>
          (case db_Commit dbTx w of
             (Some e, w1) \<Rightarrow> (Some (Errorf ''failed to commit transaction: %w'' (Some e)), w1)
           | (None, w1) \<Rightarrow> (None, w1)))"

definition RollbackTransaction :: "Context \<Rightarrow> world \<Rightarrow> err option \<times> world" where
  "RollbackTransaction ctx w =
     (case GetTransactionFromContext ctx of
        None \<Rightarrow> (Some (Errorf ''no active transaction to rollback'' None), w)
      | Some NotDB \<Rightarrow> (Some (Errorf ''invalid transaction type in context'' None), w)
      | Some (IsDB dbTx) \<Rightarrow>
          (case db_Rollback dbTx w of
             (Some e, w1) \<Rightarrow> (Some (Errorf ''failed to rollback transaction: %w'' (Some e)), w1)
           | (None, w1) \<Rightarrow> (None, w1)))"

section \<open>The repositories\<close>

text \<open>
  Each repository holds the pooled connection (\<open>Conn\<close>) and picks its handle with
  \<open>GetDB\<close>. A \<^verbatim>\<open>Create\<close> returns the caller's entity as the call leaves it; the
  finders return \<open>Inl\<close> for a non-nil error.
\<close>

subsection \<open>Users\<close>

definition userRepositoryImpl_domainToModel :: "User \<Rightarrow> UserModel" where
  "userRepositoryImpl_domainToModel user =
     (let deletedAt = (case User.DeletedAt user of
                         None \<Rightarrow> \<lparr>Time = 0, Valid = False\<rparr>
                       | Some t \<Rightarrow> \<lparr>Time = t, Valid = True\<rparr>)
      in \<lparr>UserModel.ID = User.ID user,
          UserModel.FullName = User.FullName user,
          UserModel.PhoneNumber = User.PhoneNumber user,
          UserModel.Image = User.Image user,
          UserModel.Version = User.Version user,
          UserModel.CreatedAt = User.CreatedAt user,
          UserModel.UpdatedAt = User.UpdatedAt user,
          UserModel.DeletedAt = deletedAt\<rparr>)"

definition userRepositoryImpl_modelToDomain :: "UserModel \<Rightarrow> User" where
  "userRepositoryImpl_modelToDomain model =
     (let deletedAt = (if Valid (UserModel.DeletedAt model)
                       then Some (Time (UserModel.DeletedAt model)) else None)
      in \<lparr>User.ID = UserModel.ID model,
          User.FullName = UserModel.FullName model,
          User.PhoneNumber = UserModel.PhoneNumber model,
          User.Image = UserModel.Image model,
          User.Version = UserModel.Version model,
          User.CreatedAt = UserModel.CreatedAt model,
          User.UpdatedAt = UserModel.UpdatedAt model,
          User.DeletedAt = deletedAt\<rparr>)"

definition userRepositoryImpl_Create :: "Context \<Rightarrow> User \<Rightarrow> world \<Rightarrow> (err + User) \<times> world" where
  "userRepositoryImpl_Create ctx user w =
     (let model = userRepositoryImpl_domainToModel user;
          db = GetDB ctx Conn
      in case db_Create users_table db model w of
           ((res, model'), w') \<Rightarrow>
             (case Error res of
                Some e \<Rightarrow>
                  if errors_Is e ErrDuplicatedKey then (Inl ErrDuplicatePhoneNumber, w')
                  else (Inl e, w')
              | None \<Rightarrow>
                  (Inr (user\<lparr>User.ID := UserModel.ID model',
                             User.CreatedAt := UserModel.CreatedAt model',
                             User.UpdatedAt := UserModel.UpdatedAt model'\<rparr>), w')))"

definition userRepositoryImpl_FindByID :: "Context \<Rightarrow> uuid_UUID \<Rightarrow> world \<Rightarrow> err + User" where
  "userRepositoryImpl_FindByID ctx uid w =
     (let db = GetDB ctx Conn
      in case db_First users_table db (\<lambda>r. UserModel.ID r = uid) w of
           Inl e \<Rightarrow> if errors_Is e ErrRecordNotFound then Inl ErrNotFound else Inl e
         | Inr model \<Rightarrow> Inr (userRepositoryImpl_modelToDomain model))"

definition userRepositoryImpl_FindByPhoneNumber :: "Context \<Rightarrow> string \<Rightarrow> world \<Rightarrow> err + User" where
  "userRepositoryImpl_FindByPhoneNumber ctx phoneNumber w =
     (let db = GetDB ctx Conn
      in case db_First users_table db (\<lambda>r. UserModel.PhoneNumber r = phoneNumber) w of
           Inl e \<Rightarrow> if errors_Is e ErrRecordNotFound then Inl ErrNotFound else Inl e
         | Inr model \<Rightarrow> Inr (userRepositoryImpl_modelToDomain model))"

definition userRepositoryImpl_Update :: "Context \<Rightarrow> User \<Rightarrow> world \<Rightarrow> err option \<times> world" where
  "userRepositoryImpl_Update ctx user w =
     (let model = userRepositoryImpl_domainToModel user;
          db = GetDB ctx Conn
      in case db_Updates users_table db
                (\<lambda>r. UserModel.ID r = User.ID user \<and> UserModel.Version r = User.Version user - 1)
                (\<lambda>r. r\<lparr>UserModel.FullName := UserModel.FullName model,
                        UserModel.PhoneNumber := UserModel.PhoneNumber model,
                        UserModel.Image := UserModel.Image model,
                        UserModel.Version := UserModel.Version model,
                        UserModel.UpdatedAt := UserModel.UpdatedAt model\<rparr>) w of
           (result, w') \<Rightarrow>
             if Error result \<noteq> None then (Error result, w')
             else if RowsAffected result = 0 then (Some ErrConflict, w')
             else (None, w'))"

definition userRepositoryImpl_Delete :: "Context \<Rightarrow> uuid_UUID \<Rightarrow> world \<Rightarrow> err option \<times> world" where
  "userRepositoryImpl_Delete ctx uid w =
     (let db = GetDB ctx Conn
      in case db_Delete users_table db (\<lambda>r. UserModel.ID r = uid) w of
           (result, w') \<Rightarrow>
             if Error result \<noteq> None then (Error result, w')
             else if RowsAffected result = 0 then (Some ErrNotFound, w')
             else (None, w'))"

definition userRepositoryImpl_List :: "Context \<Rightarrow> int \<Rightarrow> int \<Rightarrow> world \<Rightarrow> err + User list" where
  "userRepositoryImpl_List ctx limit offset w =
     (let db = GetDB ctx Conn
      in case db_Find users_table db (\<lambda>r. True) (\<lambda>r. - UserModel.CreatedAt r)
                (Some limit) (Some offset) w of
           Inl e \<Rightarrow> Inl e
         | Inr models \<Rightarrow> Inr (map userRepositoryImpl_modelToDomain models))"

subsection \<open>Money flows\<close>

definition moneyFlowRepositoryImpl_domainToModel :: "MoneyFlow \<Rightarrow> MoneyFlowModel" where
  "moneyFlowRepositoryImpl_domainToModel moneyFlow =
     (let deletedAt = (case MoneyFlow.DeletedAt moneyFlow of
                         None \<Rightarrow> \<lparr>Time = 0, Valid = False\<rparr>
                       | Some t \<Rightarrow> \<lparr>Time = t, Valid = True\<rparr>)
      in \<lparr>MoneyFlowModel.ID = MoneyFlow.ID moneyFlow,
          MoneyFlowModel.UserID = MoneyFlow.UserID moneyFlow,
          MoneyFlowModel.Category = MoneyFlow.Category moneyFlow,
          MoneyFlowModel.Amount = MoneyFlow.Amount moneyFlow,
          MoneyFlowModel.Currency = MoneyFlow.Currency moneyFlow,
          MoneyFlowModel.Description = MoneyFlow.Description moneyFlow,
          MoneyFlowModel.Tags = MoneyFlow.Tags moneyFlow,
          MoneyFlowModel.Version = MoneyFlow.Version moneyFlow,
          MoneyFlowModel.CreatedAt = MoneyFlow.CreatedAt moneyFlow,
          MoneyFlowModel.UpdatedAt = MoneyFlow.UpdatedAt moneyFlow,
          MoneyFlowModel.DeletedAt = deletedAt\<rparr>)"

definition moneyFlowRepositoryImpl_modelToDomain :: "MoneyFlowModel \<Rightarrow> MoneyFlow" where
  "moneyFlowRepositoryImpl_modelToDomain model =
     (let deletedAt = (if Valid (MoneyFlowModel.DeletedAt model)
                       then Some (Time (MoneyFlowModel.DeletedAt model)) else None)
      in \<lparr>MoneyFlow.ID = MoneyFlowModel.ID model,
          MoneyFlow.UserID = MoneyFlowModel.UserID model,
          MoneyFlow.Category = MoneyFlowModel.Category model,
          MoneyFlow.Amount = MoneyFlowModel.Amount model,
          MoneyFlow.Currency = MoneyFlowModel.Currency model,
          MoneyFlow.Description = MoneyFlowModel.Description model,
          MoneyFlow.Tags = MoneyFlowModel.Tags model,
          MoneyFlow.Version = MoneyFlowModel.Version model,
          MoneyFlow.CreatedAt = MoneyFlowModel.CreatedAt model,
          MoneyFlow.UpdatedAt = MoneyFlowModel.UpdatedAt model,
          MoneyFlow.DeletedAt = deletedAt\<rparr>)"

definition moneyFlowRepositoryImpl_Create ::
  "Context \<Rightarrow> MoneyFlow \<Rightarrow> world \<Rightarrow> (err + MoneyFlow) \<times> world" where
  "moneyFlowRepositoryImpl_Create ctx moneyFlow w =
     (let model = moneyFlowRepositoryImpl_domainToModel moneyFlow;
          db = GetDB ctx Conn
      in case db_Create money_flows_table db model w of
           ((res, model'), w') \<Rightarrow>
             (case Error res of
                Some e \<Rightarrow> (Inl e, w')
              | None \<Rightarrow>
                  (Inr (moneyFlow\<lparr>MoneyFlow.ID := MoneyFlowModel.ID model',
                                  MoneyFlow.CreatedAt := MoneyFlowModel.CreatedAt model',
                                  MoneyFlow.UpdatedAt := MoneyFlowModel.UpdatedAt model'\<rparr>), w')))"

definition moneyFlowRepositoryImpl_FindByID :: "Context \<Rightarrow> uuid_UUID \<Rightarrow> world \<Rightarrow> err + MoneyFlow" where
  "moneyFlowRepositoryImpl_FindByID ctx uid w =
     (let db = GetDB ctx Conn
      in case db_First money_flows_table db (\<lambda>r. MoneyFlowModel.ID r = uid) w of
           Inl e \<Rightarrow> if errors_Is e ErrRecordNotFound then Inl ErrNotFound else Inl e
         | Inr model \<Rightarrow> Inr (moneyFlowRepositoryImpl_modelToDomain model))"

definition moneyFlowRepositoryImpl_Update ::
  "Context \<Rightarrow> MoneyFlow \<Rightarrow> world \<Rightarrow> err option \<times> world" where
  "moneyFlowRepositoryImpl_Update ctx moneyFlow w =
     (let model = moneyFlowRepositoryImpl_domainToModel moneyFlow;
          db = GetDB ctx Conn
      in case db_Updates money_flows_table db
                (\<lambda>r. MoneyFlowModel.ID r = MoneyFlow.ID moneyFlow
                      \<and> MoneyFlowModel.Version r = MoneyFlow.Version moneyFlow - 1)
                (\<lambda>r. r\<lparr>MoneyFlowModel.Category := MoneyFlowModel.Category model,
                        MoneyFlowModel.Amount := MoneyFlowModel.Amount model,
                        MoneyFlowModel.Currency := MoneyFlowModel.Currency model,
                        MoneyFlowModel.Description := MoneyFlowModel.Description model,
                        MoneyFlowModel.Tags := MoneyFlowModel.Tags model,
                        MoneyFlowModel.Version := MoneyFlowModel.Version model,
                        MoneyFlowModel.UpdatedAt := MoneyFlowModel.UpdatedAt model\<rparr>) w of
           (result, w') \<Rightarrow>
             if Error result \<noteq> None then (Error result, w')
             else if RowsAffected result = 0 then (Some ErrConflict, w')
             else (None, w'))"

definition moneyFlowRepositoryImpl_Delete ::
  "Context \<Rightarrow> uuid_UUID \<Rightarrow> world \<Rightarrow> err option \<times> world" where
  "moneyFlowRepositoryImpl_Delete ctx uid w =
     (let db = GetDB ctx Conn
      in case db_Delete money_flows_table db (\<lambda>r. MoneyFlowModel.ID r = uid) w of
           (result, w') \<Rightarrow>
             if Error result \<noteq> None then (Error result, w')
             else if RowsAffected result = 0 then (Some ErrNotFound, w')
             else (None, w'))"

subsection \<open>Credential links\<close>

text \<open>
  \<^verbatim>\<open>repository.UserAuth\<close> has no version, no timestamps and no deletion time:
  \<^verbatim>\<open>domainToModel\<close> leaves those model fields at their zero values.
\<close>

definition userAuthRepositoryImpl_domainToModel :: "UserAuth \<Rightarrow> UserAuthModel" where
  "userAuthRepositoryImpl_domainToModel userAuth =
     \<lparr>UserAuthModel.ID = UserAuth.ID userAuth,
      UserAuthModel.UserID = UserAuth.UserID userAuth,
      UserAuthModel.AuthProviderID = UserAuth.AuthProviderID userAuth,
      UserAuthModel.CredentialID = UserAuth.CredentialID userAuth,
      UserAuthModel.CredentialSecret = UserAuth.CredentialSecret userAuth,
      UserAuthModel.CredentialRefresh = UserAuth.CredentialRefresh userAuth,
      UserAuthModel.Version = 0,
      UserAuthModel.CreatedAt = 0,
      UserAuthModel.UpdatedAt = 0,
      UserAuthModel.DeletedAt = \<lparr>Time = 0, Valid = False\<rparr>\<rparr>"

definition userAuthRepositoryImpl_modelToDomain :: "UserAuthModel \<Rightarrow> UserAuth" where
  "userAuthRepositoryImpl_modelToDomain model =
     \<lparr>UserAuth.ID = UserAuthModel.ID model,
      UserAuth.UserID = UserAuthModel.UserID model,
      UserAuth.AuthProviderID = UserAuthModel.AuthProviderID model,
      UserAuth.CredentialID = UserAuthModel.CredentialID model,
      UserAuth.CredentialSecret = UserAuthModel.CredentialSecret model,
      UserAuth.CredentialRefresh = UserAuthModel.CredentialRefresh model\<rparr>"

definition userAuthRepositoryImpl_Create ::
  "Context \<Rightarrow> UserAuth \<Rightarrow> world \<Rightarrow> (err + UserAuth) \<times> world" where
  "userAuthRepositoryImpl_Create ctx userAuth w =
     (let model = userAuthRepositoryImpl_domainToModel userAuth;
          db = GetDB ctx Conn
      in case db_Create user_auths_table db model w of
           ((res, model'), w') \<Rightarrow>
             (case Error res of
                Some e \<Rightarrow> (Inl e, w')
              | None \<Rightarrow> (Inr (userAuth\<lparr>UserAuth.ID := UserAuthModel.ID model'\<rparr>), w')))"

definition userAuthRepositoryImpl_FindByCredentialID ::
  "Context \<Rightarrow> string \<Rightarrow> uuid_UUID \<Rightarrow> world \<Rightarrow> err + UserAuth" where
  "userAuthRepositoryImpl_FindByCredentialID ctx credentialID authProviderID w =
     (let db = GetDB ctx Conn
      in case db_First user_auths_table db
                (\<lambda>r. UserAuthModel.CredentialID r = credentialID
                      \<and> UserAuthModel.AuthProviderID r = authProviderID) w of
           Inl e \<Rightarrow> if errors_Is e ErrRecordNotFound then Inl ErrNotFound else Inl e
         | Inr model \<Rightarrow> Inr (userAuthRepositoryImpl_modelToDomain model))"

definition userAuthRepositoryImpl_FindByUserIDAndProvider ::
  "Context \<Rightarrow> uuid_UUID \<Rightarrow> uuid_UUID \<Rightarrow> world \<Rightarrow> err + UserAuth" where
  "userAuthRepositoryImpl_FindByUserIDAndProvider ctx userID authProviderID w =
     (let db = GetDB ctx Conn
      in case db_First user_auths_table db
                (\<lambda>r. UserAuthModel.UserID r = userID
                      \<and> UserAuthModel.AuthProviderID r = authProviderID) w of
           Inl e \<Rightarrow> if errors_Is e ErrRecordNotFound then Inl ErrNotFound else Inl e
         | Inr model \<Rightarrow> Inr (userAuthRepositoryImpl_modelToDomain model))"

definition userAuthRepositoryImpl_Update ::
  "Context \<Rightarrow> UserAuth \<Rightarrow> world \<Rightarrow> err option \<times> world" where
  "userAuthRepositoryImpl_Update ctx userAuth w =
     (let model = userAuthRepositoryImpl_domainToModel userAuth;
          db = GetDB ctx Conn
      in case db_Updates user_auths_table db
                (\<lambda>r. UserAuthModel.ID r = UserAuth.ID userAuth)
                (\<lambda>r. r\<lparr>UserAuthModel.CredentialID := UserAuthModel.CredentialID model,
                        UserAuthModel.CredentialSecret := UserAuthModel.CredentialSecret model,
                        UserAuthModel.CredentialRefresh := UserAuthModel.CredentialRefresh model,
                        UserAuthModel.UpdatedAt := UserAuthModel.UpdatedAt model\<rparr>) w of
           (result, w') \<Rightarrow>
             if Error result \<noteq> None then (Error result, w')
             else if RowsAffected result = 0 then (Some ErrNotFound, w')
             else (None, w'))"

definition userAuthRepositoryImpl_Delete ::
  "Context \<Rightarrow> uuid_UUID \<Rightarrow> world \<Rightarrow> err option \<times> world" where
  "userAuthRepositoryImpl_Delete ctx uid w =
     (let db = GetDB ctx Conn
      in case db_Delete user_auths_table db (\<lambda>r. UserAuthModel.ID r = uid) w of
           (result, w') \<Rightarrow>
             if Error result \<noteq> None then (Error result, w')
             else if RowsAffected result = 0 then (Some ErrNotFound, w')
             else (None, w'))"

subsection \<open>Credential providers\<close>

definition authProviderRepositoryImpl_domainToModel :: "AuthProvider \<Rightarrow> AuthProviderModel" where
  "authProviderRepositoryImpl_domainToModel provider =
     \<lparr>AuthProviderModel.ID = AuthProvider.ID provider,
      AuthProviderModel.DisplayName = AuthProvider.DisplayName provider,
      AuthProviderModel.Name = AuthProvider.Name provider,
      AuthProviderModel.Image = AuthProvider.Image provider,
      AuthProviderModel.ClientID = AuthProvider.ClientID provider,
      AuthProviderModel.ClientSecret = AuthProvider.ClientSecret provider,
      AuthProviderModel.Version = 0,
      AuthProviderModel.CreatedAt = 0,
      AuthProviderModel.UpdatedAt = 0,
      AuthProviderModel.DeletedAt = \<lparr>Time = 0, Valid = False\<rparr>\<rparr>"

definition authProviderRepositoryImpl_modelToDomain :: "AuthProviderModel \<Rightarrow> AuthProvider" where
  "authProviderRepositoryImpl_modelToDomain model =
     \<lparr>AuthProvider.ID = AuthProviderModel.ID model,
      AuthProvider.DisplayName = AuthProviderModel.DisplayName model,
      AuthProvider.Name = AuthProviderModel.Name model,
      AuthProvider.Image = AuthProviderModel.Image model,
      AuthProvider.ClientID = AuthProviderModel.ClientID model,
      AuthProvider.ClientSecret = AuthProviderModel.ClientSecret model\<rparr>"

text \<open>
  The two finders return a pointer and an error; \<open>Inr None\<close> is the nil pointer
  returned together with a nil error.
\<close>

definition authProviderRepositoryImpl_FindByName ::
  "Context \<Rightarrow> string \<Rightarrow> world \<Rightarrow> err + AuthProvider option" where
  "authProviderRepositoryImpl_FindByName ctx name w =
     (let db = GetDB ctx Conn
      in case db_First auth_providers_table db (\<lambda>r. AuthProviderModel.Name r = Some name) w of
           Inl e \<Rightarrow> if errors_Is e ErrRecordNotFound then Inr None else Inl e
         | Inr model \<Rightarrow> Inr (Some (authProviderRepositoryImpl_modelToDomain model)))"

definition authProviderRepositoryImpl_FindByID ::
  "Context \<Rightarrow> uuid_UUID \<Rightarrow> world \<Rightarrow> err + AuthProvider option" where
  "authProviderRepositoryImpl_FindByID ctx uid w =
     (let db = GetDB ctx Conn
      in case db_First auth_providers_table db (\<lambda>r. AuthProviderModel.ID r = uid) w of
           Inl e \<Rightarrow> if errors_Is e ErrRecordNotFound then Inr None else Inl e
         | Inr model \<Rightarrow> Inr (Some (authProviderRepositoryImpl_modelToDomain model)))"

definition authProviderRepositoryImpl_Create ::
  "Context \<Rightarrow> AuthProvider \<Rightarrow> world \<Rightarrow> (err + AuthProvider) \<times> world" where
  "authProviderRepositoryImpl_Create ctx provider w =
     (let model = authProviderRepositoryImpl_domainToModel provider;
          db = GetDB ctx Conn
      in case db_Create auth_providers_table db model w of
           ((res, model'), w') \<Rightarrow>
             (case Error res of
                Some e \<Rightarrow> (Inl e, w')
              | None \<Rightarrow> (Inr (provider\<lparr>AuthProvider.ID := AuthProviderModel.ID model'\<rparr>), w')))"

section \<open>The authentication service\<close>

text \<open>
  The password hasher (bcrypt) and the token manager (HMAC-signed JWTs) are
  collaborators of the service: the service is given their functions.
\<close>

record PasswordHasher =
  Hash :: "string \<Rightarrow> err + string"
  IsValidPassword :: "string \<Rightarrow> string \<Rightarrow> bool"

record JWTManager =
  GenerateAccessToken :: "uuid_UUID \<Rightarrow> string \<Rightarrow> string \<Rightarrow> err + (string \<times> int)"
  GenerateRefreshToken :: "uuid_UUID \<Rightarrow> err + string"

record AuthService =
  passwordHasher :: PasswordHasher
  jwtManager :: JWTManager

record RegisterResponse =
  User :: User
  AccessToken :: string
  RefreshToken :: string
  ExpiresIn :: int

record LoginResponse =
  User :: User
  AccessToken :: string
  RefreshToken :: string
  ExpiresIn :: int

definition EmailPasswordProviderName :: string where
  "EmailPasswordProviderName = ''email-password''"

text \<open>
  The callback \<^verbatim>\<open>Register\<close> hands to \<^verbatim>\<open>WithTransaction\<close>. The variable it
  assigns is \<^verbatim>\<open>user\<close>, a pointer that is nil before the call.
\<close>

definition Register_fn ::
  "string \<Rightarrow> string \<Rightarrow> string \<Rightarrow> AuthProvider \<Rightarrow> Context \<Rightarrow> User option \<Rightarrow> world
   \<Rightarrow> err option \<times> User option \<times> world" where
  "Register_fn fullName email hashedPassword provider txCtx user0 w =
     (case uuid_New w of
        (uid, w1) \<Rightarrow>
          let user = NewUser uid (clock w1) fullName email
          in case userRepositoryImpl_Create txCtx user w1 of
               (Inl e, w2) \<Rightarrow>
                 (Some (Wrap e ErrCodeInternal ''Failed to create user'' 500), Some user, w2)
             | (Inr user', w2) \<Rightarrow>
                 (case uuid_New w2 of
                    (aid, w3) \<Rightarrow>
                      let userAuth = \<lparr>UserAuth.ID = aid,
                                      UserAuth.UserID = User.ID user',
                                      UserAuth.AuthProviderID = AuthProvider.ID provider,
                                      UserAuth.CredentialID = email,
                                      UserAuth.CredentialSecret = hashedPassword,
                                      UserAuth.CredentialRefresh = None\<rparr>
                      in case userAuthRepositoryImpl_Create txCtx userAuth w3 of
                           (Inl e, w4) \<Rightarrow>
                             (Some (Wrap e ErrCodeInternal ''Failed to create user auth'' 500),
                              Some user', w4)
                         | (Inr _, w4) \<Rightarrow> (None, Some user', w4)))"


definition Login ::
  "AuthService \<Rightarrow> Context \<Rightarrow> string \<Rightarrow> string \<Rightarrow> world \<Rightarrow> err + LoginResponse" where
  "Login s ctx email password w =
     (case authProviderRepositoryImpl_FindByName ctx EmailPasswordProviderName w of
        Inl e \<Rightarrow> Inl (Wrap e ErrCodeInternal ''Failed to find auth provider'' 500)
      | Inr None \<Rightarrow> Inl (New ErrCodeInternal ''Authentication provider not configured'' 500)
      | Inr (Some provider) \<Rightarrow>
          (case userAuthRepositoryImpl_FindByCredentialID ctx email (AuthProvider.ID provider) w of
             Inl e \<Rightarrow>
               if errors_Is e ErrNotFound then Inl ErrInvalidCredentials
               else Inl (Wrap e ErrCodeInternal ''Failed to find user auth'' 500)
           | Inr userAuth \<Rightarrow>
               if \<not> IsValidPassword (passwordHasher s) (UserAuth.CredentialSecret userAuth) password
               then Inl ErrInvalidCredentials
               else
                 (case userRepositoryImpl_FindByID ctx (UserAuth.UserID userAuth) w of
                    Inl e \<Rightarrow> Inl (Wrap e ErrCodeInternal ''Failed to find user'' 500)
                  | Inr user \<Rightarrow>
                      (case GenerateAccessToken (jwtManager s) (User.ID user) email
                              (User.FullName user) of
                         Inl e \<Rightarrow>
                           Inl (Wrap e ErrCodeInternal ''Failed to generate access token'' 500)
                       | Inr (accessToken, expiresIn) \<Rightarrow>
                           (case GenerateRefreshToken (jwtManager s) (User.ID user) of
                              Inl e \<Rightarrow>
                                Inl (Wrap e ErrCodeInternal
                                       ''Failed to generate refresh token'' 500)
                            | Inr refreshToken \<Rightarrow>
                                Inr \<lparr>LoginResponse.User = user,
                                     LoginResponse.AccessToken = accessToken,
                                     LoginResponse.RefreshToken = refreshToken,
                                     LoginResponse.ExpiresIn = expiresIn\<rparr>)))))"

section \<open>Example data\<close>

text \<open>
  A small database used to run the code at concrete inputs: the seeded
  email-password provider, one user with phone number \<^verbatim>\<open>+111\<close>, that user's
  credential link and one expense record. The random source hands out 20, 21, ...
\<close>

definition example_provider :: AuthProviderModel where
  "example_provider =
     \<lparr>AuthProviderModel.ID = 7, AuthProviderModel.DisplayName = ''Email & Password'',
      AuthProviderModel.Name = Some ''email-password'', AuthProviderModel.Image = None,
      AuthProviderModel.ClientID = None, AuthProviderModel.ClientSecret = None,
      AuthProviderModel.Version = 0, AuthProviderModel.CreatedAt = 1,
      AuthProviderModel.UpdatedAt = 1,
      AuthProviderModel.DeletedAt = \<lparr>Time = 0, Valid = False\<rparr>\<rparr>"

definition example_user :: UserModel where
  "example_user =
     \<lparr>UserModel.ID = 1, UserModel.FullName = ''A'', UserModel.PhoneNumber = ''+111'',
      UserModel.Image = None, UserModel.Version = 0, UserModel.CreatedAt = 5,
      UserModel.UpdatedAt = 5, UserModel.DeletedAt = \<lparr>Time = 0, Valid = False\<rparr>\<rparr>"

definition example_auth :: UserAuthModel where
  "example_auth =
     \<lparr>UserAuthModel.ID = 3, UserAuthModel.UserID = 1, UserAuthModel.AuthProviderID = 7,
      UserAuthModel.CredentialID = ''+111'', UserAuthModel.CredentialSecret = ''s3cret'',
      UserAuthModel.CredentialRefresh = None, UserAuthModel.Version = 0,
      UserAuthModel.CreatedAt = 5, UserAuthModel.UpdatedAt = 5,
      UserAuthModel.DeletedAt = \<lparr>Time = 0, Valid = False\<rparr>\<rparr>"

definition example_flow :: MoneyFlowModel where
  "example_flow =
     \<lparr>MoneyFlowModel.ID = 9, MoneyFlowModel.UserID = 1, MoneyFlowModel.Category = None,
      MoneyFlowModel.Amount = 0, MoneyFlowModel.Currency = ''IDR'',
      MoneyFlowModel.Description = None, MoneyFlowModel.Tags = [],
      MoneyFlowModel.Version = 0, MoneyFlowModel.CreatedAt = 6,
      MoneyFlowModel.UpdatedAt = 6,
      MoneyFlowModel.DeletedAt = \<lparr>Time = 0, Valid = False\<rparr>\<rparr>"

definition example_store :: store where
  "example_store =
     \<lparr>users = [example_user], auth_providers = [example_provider],
      user_auths = [example_auth], money_flows = [example_flow]\<rparr>"

definition example_world :: world where
  "example_world =
     \<lparr>committed = example_store, txs = [], clock = 100,
      entropy = (\<lambda>n. of_nat n + 20), drawn = 0, TranslateError = False\<rparr>"


text \<open>The same world after \<^verbatim>\<open>Begin\<close>: transaction 0 is open.\<close>

definition example_tx_world :: world where
  "example_tx_world = snd (db_Begin example_world)"

definition example_tx_ctx :: Context where
  "example_tx_ctx = Some (IsDB (Tx 0))"

definition example_provider_entity :: AuthProvider where
  "example_provider_entity = authProviderRepositoryImpl_modelToDomain example_provider"

text \<open>A hasher that reverses the password and a token manager that always succeeds.\<close>

definition example_service :: AuthService where
  "example_service =
     \<lparr>passwordHasher = \<lparr>Hash = (\<lambda>p. Inr (rev p)), IsValidPassword = (\<lambda>h p. h = rev p)\<rparr>,
      jwtManager = \<lparr>GenerateAccessToken = (\<lambda>u e n. Inr (e, 3600)),
                    GenerateRefreshToken = (\<lambda>u. Inr ''refresh'')\<rparr>\<rparr>"

section \<open>Basic facts about the statements\<close>

lemma fold_least_in: "fold (\<lambda>x m. if k x < k m then x else m) rs r \<in> set (r # rs)"
  by (induction rs arbitrary: r) auto

lemma select_first_None:
  "(select_first T P s = None) = (\<forall>r \<in> set (rows_of T s). \<not> visible T P r)"
proof (cases "filter (visible T P) (rows_of T s)")
  case Nil
  then show ?thesis
    by (simp add: select_first_def filter_empty_conv)
next
  case (Cons x xs)
  then have "x \<in> set (filter (visible T P) (rows_of T s))"
    by simp
  then have "\<exists>r \<in> set (rows_of T s). visible T P r"
    by auto
  with Cons show ?thesis
    by (simp add: select_first_def)
qed

lemma select_first_Some:
  assumes "select_first T P s = Some r"
  shows "r \<in> set (rows_of T s) \<and> visible T P r"
proof -
  from assms obtain x xs where f: "filter (visible T P) (rows_of T s) = x # xs"
    and r: "r = fold (\<lambda>x m. if pkey T x < pkey T m then x else m) xs x"
    by (auto simp: select_first_def split: list.splits)
  have "r \<in> set (x # xs)"
    unfolding r by (rule fold_least_in)
  then have "r \<in> set (filter (visible T P) (rows_of T s))"
    by (simp add: f)
  then show ?thesis by simp
qed

lemma visible_users [simp]:
  "visible users_table P r = (P r \<and> \<not> Valid (UserModel.DeletedAt r))"
  by (simp add: visible_def users_table_def null_time_def)

lemma visible_auth_providers [simp]:
  "visible auth_providers_table P r = (P r \<and> \<not> Valid (AuthProviderModel.DeletedAt r))"
  by (simp add: visible_def auth_providers_table_def null_time_def)

lemma visible_user_auths [simp]:
  "visible user_auths_table P r = (P r \<and> \<not> Valid (UserAuthModel.DeletedAt r))"
  by (simp add: visible_def user_auths_table_def null_time_def)

lemma visible_money_flows [simp]:
  "visible money_flows_table P r = (P r \<and> \<not> Valid (MoneyFlowModel.DeletedAt r))"
  by (simp add: visible_def money_flows_table_def null_time_def)

lemma rows_of_tables [simp]:
  "rows_of users_table = users"
  "rows_of auth_providers_table = auth_providers"
  "rows_of user_auths_table = user_auths"
  "rows_of money_flows_table = money_flows"
  by (simp_all add: users_table_def auth_providers_table_def user_auths_table_def
        money_flows_table_def)

subsection \<open>The finders, on a handle that answers\<close>

lemma authProvider_FindByName_eq:
  "view (GetDB ctx Conn) w = Inr s \<Longrightarrow>
   authProviderRepositoryImpl_FindByName ctx name w
     = (case select_first auth_providers_table (\<lambda>r. AuthProviderModel.Name r = Some name) s of
          None \<Rightarrow> Inr None
        | Some r \<Rightarrow> Inr (Some (authProviderRepositoryImpl_modelToDomain r)))"
  by (simp add: authProviderRepositoryImpl_FindByName_def db_First_def split: option.splits)

lemma authProvider_FindByID_eq:
  "view (GetDB ctx Conn) w = Inr s \<Longrightarrow>
   authProviderRepositoryImpl_FindByID ctx uid w
     = (case select_first auth_providers_table (\<lambda>r. AuthProviderModel.ID r = uid) s of
          None \<Rightarrow> Inr None
        | Some r \<Rightarrow> Inr (Some (authProviderRepositoryImpl_modelToDomain r)))"
  by (simp add: authProviderRepositoryImpl_FindByID_def db_First_def split: option.splits)

lemma user_FindByID_eq:
  "view (GetDB ctx Conn) w = Inr s \<Longrightarrow>
   userRepositoryImpl_FindByID ctx uid w
     = (case select_first users_table (\<lambda>r. UserModel.ID r = uid) s of
          None \<Rightarrow> Inl ErrNotFound
        | Some r \<Rightarrow> Inr (userRepositoryImpl_modelToDomain r))"
  by (simp add: userRepositoryImpl_FindByID_def db_First_def split: option.splits)

lemma user_FindByPhoneNumber_eq:
  "view (GetDB ctx Conn) w = Inr s \<Longrightarrow>
   userRepositoryImpl_FindByPhoneNumber ctx phone w
     = (case select_first users_table (\<lambda>r. UserModel.PhoneNumber r = phone) s of
          None \<Rightarrow> Inl ErrNotFound
        | Some r \<Rightarrow> Inr (userRepositoryImpl_modelToDomain r))"
  by (simp add: userRepositoryImpl_FindByPhoneNumber_def db_First_def split: option.splits)

lemma moneyFlow_FindByID_eq:
  "view (GetDB ctx Conn) w = Inr s \<Longrightarrow>
   moneyFlowRepositoryImpl_FindByID ctx uid w
     = (case select_first money_flows_table (\<lambda>r. MoneyFlowModel.ID r = uid) s of
          None \<Rightarrow> Inl ErrNotFound
        | Some r \<Rightarrow> Inr (moneyFlowRepositoryImpl_modelToDomain r))"
  by (simp add: moneyFlowRepositoryImpl_FindByID_def db_First_def split: option.splits)

lemma userAuth_FindByCredentialID_eq:
  "view (GetDB ctx Conn) w = Inr s \<Longrightarrow>
   userAuthRepositoryImpl_FindByCredentialID ctx email pid w
     = (case select_first user_auths_table
               (\<lambda>r. UserAuthModel.CredentialID r = email \<and> UserAuthModel.AuthProviderID r = pid) s of
          None \<Rightarrow> Inl ErrNotFound
        | Some r \<Rightarrow> Inr (userAuthRepositoryImpl_modelToDomain r))"
  by (simp add: userAuthRepositoryImpl_FindByCredentialID_def db_First_def split: option.splits)

lemma userAuth_FindByUserIDAndProvider_eq:
  "view (GetDB ctx Conn) w = Inr s \<Longrightarrow>
   userAuthRepositoryImpl_FindByUserIDAndProvider ctx u pid w
     = (case select_first user_auths_table
               (\<lambda>r. UserAuthModel.UserID r = u \<and> UserAuthModel.AuthProviderID r = pid) s of
          None \<Rightarrow> Inl ErrNotFound
        | Some r \<Rightarrow> Inr (userAuthRepositoryImpl_modelToDomain r))"
  by (simp add: userAuthRepositoryImpl_FindByUserIDAndProvider_def db_First_def
        split: option.splits)

lemma absent_cases:
  "((case x of None \<Rightarrow> a | Some r \<Rightarrow> Inr (f r)) = a) = (x = None \<or> (\<exists>r. x = Some r \<and> Inr (f r) = a))"
  by (cases x) auto

lemma finders_absent:
  assumes v: "view (GetDB ctx Conn) w = Inr s"
  shows "(authProviderRepositoryImpl_FindByName ctx name w = Inr None)
           = (\<forall>r \<in> set (auth_providers s).
                \<not> (AuthProviderModel.Name r = Some name \<and> \<not> Valid (AuthProviderModel.DeletedAt r)))"
    and "(authProviderRepositoryImpl_FindByID ctx uid w = Inr None)
           = (\<forall>r \<in> set (auth_providers s).
                \<not> (AuthProviderModel.ID r = uid \<and> \<not> Valid (AuthProviderModel.DeletedAt r)))"
    and "(userRepositoryImpl_FindByID ctx uid w = Inl ErrNotFound)
           = (\<forall>r \<in> set (users s). \<not> (UserModel.ID r = uid \<and> \<not> Valid (UserModel.DeletedAt r)))"
    and "(userRepositoryImpl_FindByPhoneNumber ctx phone w = Inl ErrNotFound)
           = (\<forall>r \<in> set (users s).
                \<not> (UserModel.PhoneNumber r = phone \<and> \<not> Valid (UserModel.DeletedAt r)))"
    and "(moneyFlowRepositoryImpl_FindByID ctx uid w = Inl ErrNotFound)
           = (\<forall>r \<in> set (money_flows s).
                \<not> (MoneyFlowModel.ID r = uid \<and> \<not> Valid (MoneyFlowModel.DeletedAt r)))"
    and "(userAuthRepositoryImpl_FindByCredentialID ctx email pid w = Inl ErrNotFound)
           = (\<forall>r \<in> set (user_auths s).
                \<not> ((UserAuthModel.CredentialID r = email \<and> UserAuthModel.AuthProviderID r = pid)
                   \<and> \<not> Valid (UserAuthModel.DeletedAt r)))"
    and "(userAuthRepositoryImpl_FindByUserIDAndProvider ctx u pid w = Inl ErrNotFound)
           = (\<forall>r \<in> set (user_auths s).
                \<not> ((UserAuthModel.UserID r = u \<and> UserAuthModel.AuthProviderID r = pid)
                   \<and> \<not> Valid (UserAuthModel.DeletedAt r)))"
  by (simp_all add: authProvider_FindByName_eq [OF v] authProvider_FindByID_eq [OF v]
        user_FindByID_eq [OF v] user_FindByPhoneNumber_eq [OF v] moneyFlow_FindByID_eq [OF v]
        userAuth_FindByCredentialID_eq [OF v] userAuth_FindByUserIDAndProvider_eq [OF v]
        absent_cases select_first_None)

section \<open>The transaction manager: reuse of an active transaction\<close>

text \<open>
  C7. For every context that already carries a transaction handle,
  \<^verbatim>\<open>WithTransaction(ctx, fn)\<close> is \<^verbatim>\<open>fn(ctx)\<close> and nothing else: it begins no
  transaction, sets no savepoint, and neither commits nor rolls back, so what was
  written stays pending in the transaction of the outermost caller. Only when the
  context carries no handle is a transaction begun: a new one, not open before, working
  on a copy of the committed data, handed to \<^verbatim>\<open>fn\<close> in a derived context.
\<close>

theorem WithTransaction_reuses_active_transaction:
  "(IsInTransaction ctx \<longrightarrow> WithTransaction ctx fn c w = fn ctx c w)
   \<and> (\<not> IsInTransaction ctx \<longrightarrow>
        WithTransaction ctx fn c w
          = db_Transaction (\<lambda>tx. fn (SetTransactionInContext ctx (IsDB tx))) c w
        \<and> fst (db_Begin w) = Tx (length (txs w))
        \<and> tx_of (length (txs w)) w = None
        \<and> tx_of (length (txs w)) (snd (db_Begin w))
            = Some \<lparr>data = committed w, aborted = False\<rparr>)"
  by (simp add: WithTransaction_def db_Begin_def tx_of_def)

text \<open>
  Registration's callback run through \<^verbatim>\<open>WithTransaction\<close> inside the open
  transaction 0: both rows are in the transaction's working copy, the transaction is
  still open and nothing is committed. Run on a context without a handle, the same
  callback ends with both rows committed and its own transaction closed.
\<close>

theorem WithTransaction_reuses_active_transaction_witness:
  "IsInTransaction example_tx_ctx
   \<and> (case WithTransaction example_tx_ctx
               (Register_fn ''X'' ''x@x.com'' ''s'' example_provider_entity) None
               example_tx_world of
         (e, c, w') \<Rightarrow>
           e = None \<and> committed w' = example_store \<and> length (txs w') = 1
           \<and> map_option aborted (tx_of 0 w') = Some False
           \<and> map_option (\<lambda>t. map UserModel.ID (users (data t))) (tx_of 0 w') = Some [1, 20])
   \<and> \<not> IsInTransaction None
   \<and> (case db_Transaction
               (\<lambda>tx. Register_fn ''X'' ''x@x.com'' ''s'' example_provider_entity
                        (SetTransactionInContext None (IsDB tx))) None example_world of
         (e, c, w') \<Rightarrow>
           e = None \<and> map UserModel.ID (users (committed w')) = [1, 20] \<and> txs w' = [None])"
proof -
  have inside: "IsInTransaction example_tx_ctx"
    by code_simp
  have run: "(case Register_fn ''X'' ''x@x.com'' ''s'' example_provider_entity example_tx_ctx
                    None example_tx_world of
                (e, c, w') \<Rightarrow>
                  e = None \<and> committed w' = example_store \<and> length (txs w') = 1
                  \<and> map_option aborted (tx_of 0 w') = Some False
                  \<and> map_option (\<lambda>t. map UserModel.ID (users (data t))) (tx_of 0 w')
                      = Some [1, 20])"
    by code_simp
  have outside: "\<not> IsInTransaction None"
    by code_simp
  have fresh: "(case db_Transaction
                       (\<lambda>tx. Register_fn ''X'' ''x@x.com'' ''s'' example_provider_entity
                                (SetTransactionInContext None (IsDB tx))) None example_world of
                  (e, c, w') \<Rightarrow>
                    e = None \<and> map UserModel.ID (users (committed w')) = [1, 20]
                    \<and> txs w' = [None])"
    by code_simp
  show ?thesis
    using inside run outside fresh
      WithTransaction_reuses_active_transaction [of example_tx_ctx
        "Register_fn ''X'' ''x@x.com'' ''s'' example_provider_entity" None example_tx_world]
    by simp
qed

section \<open>The transaction manager: manual commit and rollback\<close>

text \<open>
  C9. \<^verbatim>\<open>CommitTransaction(ctx)\<close> and \<^verbatim>\<open>RollbackTransaction(ctx)\<close>: when the
  context holds a database handle, each does what \<^verbatim>\<open>Commit\<close> (or \<^verbatim>\<open>Rollback\<close>) on
  that very handle does, and succeeds exactly when it does. In every other case (the
  context holds nothing, or a value that is no database handle) each fails, changes
  nothing, and its error is none of the domain errors.
\<close>

theorem CommitTransaction_RollbackTransaction_use_context_handle:
  "(case GetTransactionFromContext ctx of
      Some (IsDB db) \<Rightarrow>
        snd (CommitTransaction ctx w) = snd (db_Commit db w)
        \<and> (fst (CommitTransaction ctx w) = None) = (fst (db_Commit db w) = None)
        \<and> snd (RollbackTransaction ctx w) = snd (db_Rollback db w)
        \<and> (fst (RollbackTransaction ctx w) = None) = (fst (db_Rollback db w) = None)
    | _ \<Rightarrow>
        (\<exists>e. CommitTransaction ctx w = (Some e, w) \<and> \<not> is_domain_error e)
        \<and> (\<exists>e. RollbackTransaction ctx w = (Some e, w) \<and> \<not> is_domain_error e))"
  by (auto simp: CommitTransaction_def RollbackTransaction_def is_domain_error_def
           split: option.splits tx_value.splits prod.splits)

text \<open>
  With transaction 0 open and a user created in it: committing through the context
  publishes the row and closes the transaction, rolling back closes it and publishes
  nothing. Without a handle both calls fail and leave the world as it was.
\<close>

theorem CommitTransaction_RollbackTransaction_use_context_handle_witness:
  "(let w = snd (userRepositoryImpl_Create example_tx_ctx (NewUser 30 7 ''B'' ''+222'')
                   example_tx_world)
    in fst (CommitTransaction example_tx_ctx w) = None
       \<and> map UserModel.ID (users (committed (snd (CommitTransaction example_tx_ctx w)))) = [1, 30]
       \<and> txs (snd (CommitTransaction example_tx_ctx w)) = [None]
       \<and> fst (RollbackTransaction example_tx_ctx w) = None
       \<and> map UserModel.ID (users (committed (snd (RollbackTransaction example_tx_ctx w)))) = [1]
       \<and> txs (snd (RollbackTransaction example_tx_ctx w)) = [None])
   \<and> (\<exists>e. CommitTransaction None example_world = (Some e, example_world)
           \<and> \<not> is_domain_error e)
   \<and> (\<exists>e. RollbackTransaction None example_world = (Some e, example_world)
           \<and> \<not> is_domain_error e)"
proof -
  define w where
    "w = snd (userRepositoryImpl_Create example_tx_ctx (NewUser 30 7 ''B'' ''+222'')
                example_tx_world)"
  have handle: "GetTransactionFromContext example_tx_ctx = Some (IsDB (Tx 0))"
    by code_simp
  have commit: "fst (db_Commit (Tx 0) w) = None
                \<and> map UserModel.ID (users (committed (snd (db_Commit (Tx 0) w)))) = [1, 30]
                \<and> txs (snd (db_Commit (Tx 0) w)) = [None]"
    unfolding w_def by code_simp
  have rollback: "fst (db_Rollback (Tx 0) w) = None
                  \<and> map UserModel.ID (users (committed (snd (db_Rollback (Tx 0) w)))) = [1]
                  \<and> txs (snd (db_Rollback (Tx 0) w)) = [None]"
    unfolding w_def by code_simp
  have none: "GetTransactionFromContext None = None"
    by code_simp
  show ?thesis
    using handle commit rollback none
      CommitTransaction_RollbackTransaction_use_context_handle [of example_tx_ctx w]
      CommitTransaction_RollbackTransaction_use_context_handle [of None example_world]
    by (simp add: w_def)
qed

section \<open>Credential providers: absence is not an error\<close>



section \<open>Login: one outcome for both failed checks\<close>

text \<open>
  C8. With the email-password provider configured and a handle that answers,
  \<^verbatim>\<open>Login\<close> returns the one shared \<^verbatim>\<open>ErrInvalidCredentials\<close> value both when no
  active credential record exists for the email, and when records exist but the
  password matches the secret of none of them.
\<close>

theorem Login_invalid_credentials_undifferentiated:
  assumes v: "view (GetDB ctx Conn) w = Inr s"
      and p: "authProviderRepositoryImpl_FindByName ctx EmailPasswordProviderName w
                = Inr (Some provider)"
  shows "((\<forall>r \<in> set (user_auths s).
             \<not> ((UserAuthModel.CredentialID r = email
                  \<and> UserAuthModel.AuthProviderID r = AuthProvider.ID provider)
                \<and> \<not> Valid (UserAuthModel.DeletedAt r)))
           \<longrightarrow> Login svc ctx email password w = Inl ErrInvalidCredentials)
       \<and> ((\<exists>r \<in> set (user_auths s).
              (UserAuthModel.CredentialID r = email
                \<and> UserAuthModel.AuthProviderID r = AuthProvider.ID provider)
              \<and> \<not> Valid (UserAuthModel.DeletedAt r))
           \<and> (\<forall>r \<in> set (user_auths s).
                 (UserAuthModel.CredentialID r = email
                   \<and> UserAuthModel.AuthProviderID r = AuthProvider.ID provider)
                 \<and> \<not> Valid (UserAuthModel.DeletedAt r)
                 \<longrightarrow> \<not> IsValidPassword (passwordHasher svc)
                         (UserAuthModel.CredentialSecret r) password)
           \<longrightarrow> Login svc ctx email password w = Inl ErrInvalidCredentials)"
proof (intro conjI impI)
  let ?P = "\<lambda>r. UserAuthModel.CredentialID r = email
                 \<and> UserAuthModel.AuthProviderID r = AuthProvider.ID provider"
  assume "\<forall>r \<in> set (user_auths s). \<not> (?P r \<and> \<not> Valid (UserAuthModel.DeletedAt r))"
  then have "userAuthRepositoryImpl_FindByCredentialID ctx email (AuthProvider.ID provider) w
               = Inl ErrNotFound"
    using finders_absent(6) [OF v] by simp
  then show "Login svc ctx email password w = Inl ErrInvalidCredentials"
    using p by (simp add: Login_def)
next
  let ?P = "\<lambda>r. UserAuthModel.CredentialID r = email
                 \<and> UserAuthModel.AuthProviderID r = AuthProvider.ID provider"
  assume a: "(\<exists>r \<in> set (user_auths s). ?P r \<and> \<not> Valid (UserAuthModel.DeletedAt r))
           \<and> (\<forall>r \<in> set (user_auths s). ?P r \<and> \<not> Valid (UserAuthModel.DeletedAt r)
                 \<longrightarrow> \<not> IsValidPassword (passwordHasher svc)
                         (UserAuthModel.CredentialSecret r) password)"
  then have "select_first user_auths_table ?P s \<noteq> None"
    unfolding select_first_None by auto
  then obtain r where r: "select_first user_auths_table ?P s = Some r"
    by blast
  from select_first_Some [OF r] a
  have bad: "\<not> IsValidPassword (passwordHasher svc) (UserAuthModel.CredentialSecret r) password"
    by simp
  have "userAuthRepositoryImpl_FindByCredentialID ctx email (AuthProvider.ID provider) w
          = Inr (userAuthRepositoryImpl_modelToDomain r)"
    by (simp add: userAuth_FindByCredentialID_eq [OF v] r)
  then show "Login svc ctx email password w = Inl ErrInvalidCredentials"
    using p bad by (simp add: Login_def userAuthRepositoryImpl_modelToDomain_def)
qed

text \<open>
  In the example database the address \<^verbatim>\<open>nobody\<close> has no credential record and
  \<^verbatim>\<open>+111\<close> has one whose secret does not match \<^verbatim>\<open>bad\<close>: the two logins return
  the same value.
\<close>

theorem Login_invalid_credentials_undifferentiated_witness:
  "view (GetDB None Conn) example_world = Inr example_store
   \<and> authProviderRepositoryImpl_FindByName None EmailPasswordProviderName example_world
       = Inr (Some example_provider_entity)
   \<and> Login example_service None ''nobody'' ''bad'' example_world = Inl ErrInvalidCredentials
   \<and> Login example_service None ''+111'' ''bad'' example_world = Inl ErrInvalidCredentials"
proof -
  have v: "view (GetDB None Conn) example_world = Inr example_store"
    by code_simp
  have p: "authProviderRepositoryImpl_FindByName None EmailPasswordProviderName example_world
             = Inr (Some example_provider_entity)"
    by code_simp
  have nobody:
    "\<forall>r \<in> set (user_auths example_store).
       \<not> ((UserAuthModel.CredentialID r = ''nobody''
            \<and> UserAuthModel.AuthProviderID r = AuthProvider.ID example_provider_entity)
          \<and> \<not> Valid (UserAuthModel.DeletedAt r))"
    by code_simp
  have known:
    "(\<exists>r \<in> set (user_auths example_store).
        (UserAuthModel.CredentialID r = ''+111''
          \<and> UserAuthModel.AuthProviderID r = AuthProvider.ID example_provider_entity)
        \<and> \<not> Valid (UserAuthModel.DeletedAt r))
     \<and> (\<forall>r \<in> set (user_auths example_store).
           (UserAuthModel.CredentialID r = ''+111''
             \<and> UserAuthModel.AuthProviderID r = AuthProvider.ID example_provider_entity)
           \<and> \<not> Valid (UserAuthModel.DeletedAt r)
           \<longrightarrow> \<not> IsValidPassword (passwordHasher example_service)
                   (UserAuthModel.CredentialSecret r) ''bad'')"
    by code_simp
  show ?thesis
    using v p nobody known
      Login_invalid_credentials_undifferentiated [OF v p,
        where email = "''nobody''" and svc = example_service and password = "''bad''"]
      Login_invalid_credentials_undifferentiated [OF v p,
        where email = "''+111''" and svc = example_service and password = "''bad''"]
    by blast
qed

end
